theory Spec2Isabelle
  imports Main "HOL-Library.Multiset"
begin

section \<open>The booking component \<open>ClientInterface\<close>\<close>

text \<open>
  The repository is one React component in two variants:
  \<^item> \<open>src/src/components/ClientInterface.jsx\<close>: slots come from the project's own backend
    (\<open>/api/slots\<close>, \<open>/api/book\<close>), e-mails go through a Google Apps Script;
  \<^item> \<open>src/unnamed/part_000\<close>: slots live in a SheetDB sheet, e-mails go through EmailJS.
  Definitions without a suffix embed the first file; definitions with the suffix
  \<open>_sheet\<close> embed the second. JavaScript strings are modelled as \<open>string\<close>.
\<close>

subsection \<open>String helpers of the JavaScript platform\<close>

definition toUpperChar :: "char \<Rightarrow> char" where
  \<comment> \<open>The letters of ASCII and of Latin-1. Three characters below 256 are kept here though
      JavaScript changes them: the micro sign (to a Greek letter), the sharp s (to SS) and
      the y with diaeresis; none of these touches an occurrence of AM or PM.\<close>
  "toUpperChar c =
     (let n = (of_char c :: nat)
      in if (97 \<le> n \<and> n \<le> 122) \<or> (224 \<le> n \<and> n \<le> 254 \<and> n \<noteq> 247)
         then char_of (n - 32) else c)"

definition toUpperCase :: "string \<Rightarrow> string" where
  "toUpperCase s = map toUpperChar s"

fun starts_with :: "string \<Rightarrow> string \<Rightarrow> bool" where
  "starts_with s [] = True"
| "starts_with [] (p # ps) = False"
| "starts_with (c # cs) (p # ps) = (c = p \<and> starts_with cs ps)"

fun includes_str :: "string \<Rightarrow> string \<Rightarrow> bool" where
  \<comment> \<open>\<open>s.includes(p)\<close>: \<open>p\<close> occurs in \<open>s\<close> as a contiguous run.\<close>
  "includes_str [] p = (p = [])"
| "includes_str (c # cs) p = (starts_with (c # cs) p \<or> includes_str cs p)"

fun split_str :: "char \<Rightarrow> string \<Rightarrow> string list" where
  \<comment> \<open>\<open>s.split(sep)\<close> for a one-character separator: never the empty array.\<close>
  "split_str sep [] = [[]]"
| "split_str sep (c # cs) =
     (if c = sep then [] # split_str sep cs
      else (case split_str sep cs of [] \<Rightarrow> [[c]] | p # ps \<Rightarrow> (c # p) # ps))"

definition isWhiteSpace :: "char \<Rightarrow> bool" where
  \<comment> \<open>the white space and line terminators \<open>parseInt\<close> skips (those below 256)\<close>
  "isWhiteSpace c = (of_char c \<in> {9, 10, 11, 12, 13, 32, 160 :: nat})"

definition isDigit :: "char \<Rightarrow> bool" where
  "isDigit c = (48 \<le> (of_char c :: nat) \<and> (of_char c :: nat) \<le> 57)"

definition digitValue :: "char \<Rightarrow> int" where
  "digitValue c = int (of_char c) - 48"

definition digitsValue :: "string \<Rightarrow> int" where
  "digitsValue ds = foldl (\<lambda>acc c. 10 * acc + digitValue c) 0 ds"

datatype jsNumber = NaN | Finite int | PlusInfinity | MinusInfinity

text \<open>The numbers \<open>parseInt\<close> can return: NaN, an integer that is a double, or an infinity.\<close>

function bitLength :: "int \<Rightarrow> nat" where
  "bitLength n = (if n \<le> 0 then 0 else Suc (bitLength (n div 2)))"
  by auto

termination
  by (relation "measure nat") auto

declare bitLength.simps [simp del]

definition toDouble :: "int \<Rightarrow> int option" where
  \<comment> \<open>The double nearest to a non-negative integer, ties to the even significand
      (53 bits); \<open>None\<close> is the overflow to infinity.\<close>
  "toDouble n =
     (if bitLength n \<le> 53 then Some n
      else
        (let e = bitLength n - 53;
             q = n div 2 ^ e;
             r = n mod 2 ^ e;
             half = 2 ^ (e - 1);
             q1 = (if r > half \<or> (r = half \<and> odd q) then q + 1 else q);
             m = q1 * 2 ^ e
         in if m \<ge> 2 ^ 1024 then None else Some m))"

definition parseInt :: "string \<Rightarrow> jsNumber" where
  \<comment> \<open>\<open>parseInt(s, 10)\<close>: leading white space, an optional sign, the longest run of
      decimal digits, and the double nearest to their value. (Beyond 20 digits the language
      lets an engine read the further digits as zeros; this is the exact reading.)\<close>
  "parseInt s =
     (let t = dropWhile isWhiteSpace s;
          neg = (t \<noteq> [] \<and> hd t = CHR ''-'');
          u = (if t \<noteq> [] \<and> (hd t = CHR ''-'' \<or> hd t = CHR ''+'') then tl t else t);
          ds = takeWhile isDigit u
      in if ds = [] then NaN
         else (case toDouble (digitsValue ds) of
                 None \<Rightarrow> if neg then MinusInfinity else PlusInfinity
               | Some m \<Rightarrow> Finite (if neg then - m else m)))"

definition digitChar :: "nat \<Rightarrow> char" where
  "digitChar d = char_of (48 + d)"

fun stringOfNat :: "nat \<Rightarrow> string" where
  "stringOfNat n = (if n < 10 then [digitChar n] else stringOfNat (n div 10) @ [digitChar (n mod 10)])"

declare stringOfNat.simps [simp del]

definition stringOfInt :: "int \<Rightarrow> string" where
  \<comment> \<open>\<open>String(n)\<close> of an integral number\<close>
  "stringOfInt i = (if i < 0 then CHR ''-'' # stringOfNat (nat (- i)) else stringOfNat (nat i))"

definition remainder :: "int \<Rightarrow> int \<Rightarrow> int" where
  \<comment> \<open>JavaScript \<open>%\<close> on integers, for a positive divisor: the sign of the dividend\<close>
  "remainder a b = (if a < 0 then - ((- a) mod b) else a mod b)"

subsection \<open>\<open>formatTimeToStandard\<close> (ClientInterface.jsx, lines 26--37)\<close>

definition formatTimeToStandard :: "string option \<Rightarrow> string" where
  \<comment> \<open>The argument is \<open>None\<close> for a missing (\<open>undefined\<close>, \<open>null\<close>) time. A missing
      second piece of the split prints as the text \<open>undefined\<close>. A NaN hour compares
      false with 12 and is falsy, so it prints as \<open>12 ... AM\<close>; the remainder of an
      infinite hour is NaN, so it prints as 12 as well.\<close>
  "formatTimeToStandard time =
     (case time of
        None \<Rightarrow> []
      | Some t \<Rightarrow>
          if t = [] then []
          else if includes_str (toUpperCase t) ''AM'' \<or> includes_str (toUpperCase t) ''PM'' then t
          else
            (let pieces = split_str (CHR '':'') t;
                 hours = hd pieces;
                 minutes = (case tl pieces of [] \<Rightarrow> ''undefined'' | m # _ \<Rightarrow> m);
                 hour = parseInt hours;
                 ampm = (case hour of
                           Finite h \<Rightarrow> if h \<ge> 12 then ''PM'' else ''AM''
                         | PlusInfinity \<Rightarrow> ''PM''
                         | _ \<Rightarrow> ''AM'');
                 standardHour =
                   (case hour of
                      Finite h \<Rightarrow> if remainder h 12 = 0 then 12 else remainder h 12
                    | _ \<Rightarrow> 12)
             in stringOfInt standardHour @ '':'' @ minutes @ '' '' @ ampm))"

subsection \<open>Data\<close>

record slot =
  slot_id :: string
  date :: string
  time :: string
  status :: "string option"

text \<open>
  A row of the store as the component reads it: \<open>id\<close>, \<open>date\<close> and \<open>time\<close> are strings;
  \<open>status\<close> is \<open>None\<close> where the store sends no such field (the backend of
  ClientInterface.jsx returns bookable rows only).
\<close>

record booker =
  firstName :: string
  lastName :: string
  email :: string
  isScholarship :: bool

datatype json = Undecodable string | Rows "slot list"

text \<open>
  The decoded body of the list request. \<open>Undecodable msg\<close> stands for every body on which
  the \<open>try\<close> block throws with message \<open>msg\<close>: \<open>response.json()\<close> rejects, or the value
  is no array of rows, so that \<open>filter\<close>, \<open>sort\<close> or \<open>localeCompare\<close> is no function.
\<close>

datatype 'a response = Rejected string | Response bool 'a

text \<open>\<open>fetch\<close> rejects with a message, or resolves to a response with its \<open>ok\<close> flag and body.\<close>

datatype outcome = Delivered | Failed string

datatype request =
    ListSlots
  | Commit "(string \<times> string) list"
  | Notify string "(string \<times> string) list"

text \<open>
  \<open>Commit\<close> is the booking request (\<open>POST /api/book\<close>, or \<open>PATCH\<close> of the sheet row) with the
  fields of its body; \<open>Notify\<close> is one notification call with its channel (the Apps Script's
  message type, or the EmailJS template) and its fields.
\<close>

record session =
  availableSlots :: "slot list"
  selectedSlot :: "slot option"
  userInfo :: booker
  bookingComplete :: bool
  isLoading :: bool
  errorMessage :: string
  refreshInterval :: "nat option"
  timers :: "nat list"
  cleared :: "nat list"
  requests :: "request list"

text \<open>
  The first seven fields are the component's \<open>useState\<close> cells. The last three are the
  browser: the interval timers that are running, the identifiers \<open>clearInterval\<close> was called
  with, and the requests sent so far, each in order.
\<close>

record platform =
  parseDate :: "string \<Rightarrow> int option"
  localeCompare :: "string \<Rightarrow> string \<Rightarrow> int"
  formatDate :: "string \<Rightarrow> string \<Rightarrow> string"
  validEmail :: "string \<Rightarrow> bool"
  today :: string

text \<open>
  What the component takes from the JavaScript platform: the time value of
  \<open>new Date(s)\<close> in milliseconds (\<open>None\<close> is Invalid Date, whose value is NaN),
  \<open>String.prototype.localeCompare\<close>, the texts of \<open>toLocaleDateString\<close> and \<open>getDate\<close> (the
  first argument names which one), the browser's syntax check of an \<open>email\<close> input, and the
  current date as \<open>toISOString\<close> prints it.
\<close>

record booking_env =
  commit_response :: "unit response"
  owner_outcome :: outcome
  client_outcome :: outcome

definition initialSession :: session where
  "initialSession =
     \<lparr> availableSlots = [], selectedSlot = None,
       userInfo = \<lparr> firstName = [], lastName = [], email = [], isScholarship = False \<rparr>,
       bookingComplete = False, isLoading = True, errorMessage = [], refreshInterval = None,
       timers = [], cleared = [], requests = [] \<rparr>"

subsection \<open>\<open>Array.prototype.sort\<close> with the comparator of \<open>fetchAvailableSlots\<close>\<close>

definition dateComparison :: "platform \<Rightarrow> slot \<Rightarrow> slot \<Rightarrow> int option" where
  \<comment> \<open>\<open>new Date(a.date) - new Date(b.date)\<close>; \<open>None\<close> is NaN\<close>
  "dateComparison P a b =
     (case parseDate P (date a) of
        None \<Rightarrow> None
      | Some x \<Rightarrow> (case parseDate P (date b) of None \<Rightarrow> None | Some y \<Rightarrow> Some (x - y)))"

definition compareSlots :: "platform \<Rightarrow> slot \<Rightarrow> slot \<Rightarrow> int option" where
  \<comment> \<open>\<open>NaN !== 0\<close> holds, so a NaN date difference is returned as it is\<close>
  "compareSlots P a b =
     (case dateComparison P a b of
        None \<Rightarrow> None
      | Some d \<Rightarrow> if d \<noteq> 0 then Some d else Some (localeCompare P (time a) (time b)))"

definition sortCompare :: "('a \<Rightarrow> 'a \<Rightarrow> int option) \<Rightarrow> 'a \<Rightarrow> 'a \<Rightarrow> int" where
  \<comment> \<open>the sort reads a NaN result of the comparator as 0\<close>
  "sortCompare cmp a b = (case cmp a b of None \<Rightarrow> 0 | Some v \<Rightarrow> v)"

fun insertSorted :: "('a \<Rightarrow> 'a \<Rightarrow> int option) \<Rightarrow> 'a \<Rightarrow> 'a list \<Rightarrow> 'a list" where
  "insertSorted cmp x [] = [x]"
| "insertSorted cmp x (y # ys) =
     (if sortCompare cmp x y \<le> 0 then x # y # ys else y # insertSorted cmp x ys)"

definition arraySort :: "('a \<Rightarrow> 'a \<Rightarrow> int option) \<Rightarrow> 'a list \<Rightarrow> 'a list" where
  \<comment> \<open>A stable sort, as the language requires. With a consistent comparator every stable
      sort returns this list; with an inconsistent one the language leaves the order to the
      engine, and this is one such order.\<close>
  "arraySort cmp xs = foldr (insertSorted cmp) xs []"

subsection \<open>\<open>fetchAvailableSlots\<close>\<close>

definition loadingPrefix :: string where
  "loadingPrefix = ''Error loading available slots: ''"

definition fetchAvailableSlots :: "platform \<Rightarrow> bool \<Rightarrow> json response \<Rightarrow> session \<Rightarrow> session" where
  \<comment> \<open>ClientInterface.jsx, lines 40--64\<close>
  "fetchAvailableSlots P showLoading resp s =
     (let s1 = (if showLoading then s\<lparr>isLoading := True\<rparr> else s);
          s2 = s1\<lparr>requests := requests s1 @ [ListSlots]\<rparr>;
          s3 = (case resp of
                  Rejected msg \<Rightarrow> s2\<lparr>errorMessage := loadingPrefix @ msg\<rparr>
                | Response ok body \<Rightarrow>
                    if \<not> ok then s2\<lparr>errorMessage := loadingPrefix @ ''Failed to fetch available slots''\<rparr>
                    else (case body of
                            Undecodable msg \<Rightarrow> s2\<lparr>errorMessage := loadingPrefix @ msg\<rparr>
                          | Rows data \<Rightarrow> s2\<lparr>availableSlots := arraySort (compareSlots P) data\<rparr>))
      in if showLoading then s3\<lparr>isLoading := False\<rparr> else s3)"

definition fetchAvailableSlots_sheet :: "platform \<Rightarrow> bool \<Rightarrow> json response \<Rightarrow> session \<Rightarrow> session" where
  \<comment> \<open>part_000, lines 41--73: the rows are filtered to status \<open>Available\<close> before the sort\<close>
  "fetchAvailableSlots_sheet P showLoading resp s =
     (let s1 = (if showLoading then s\<lparr>isLoading := True\<rparr> else s);
          s2 = s1\<lparr>requests := requests s1 @ [ListSlots]\<rparr>;
          s3 = (case resp of
                  Rejected msg \<Rightarrow> s2\<lparr>errorMessage := loadingPrefix @ msg\<rparr>
                | Response ok body \<Rightarrow>
                    if \<not> ok then s2\<lparr>errorMessage := loadingPrefix @ ''Failed to fetch available slots''\<rparr>
                    else (case body of
                            Undecodable msg \<Rightarrow> s2\<lparr>errorMessage := loadingPrefix @ msg\<rparr>
                          | Rows data \<Rightarrow>
                              s2\<lparr>availableSlots :=
                                   arraySort (compareSlots P)
                                     (filter (\<lambda>r. status r = Some ''Available'') data)\<rparr>))
      in if showLoading then s3\<lparr>isLoading := False\<rparr> else s3)"

definition failureMessage :: "json response \<Rightarrow> string option" where
  \<comment> \<open>the message of the error thrown in the \<open>try\<close> block, if one is thrown\<close>
  "failureMessage resp =
     (case resp of
        Rejected msg \<Rightarrow> Some msg
      | Response ok body \<Rightarrow>
          if \<not> ok then Some ''Failed to fetch available slots''
          else (case body of Undecodable msg \<Rightarrow> Some msg | Rows data \<Rightarrow> None))"

subsection \<open>The refresh timer (ClientInterface.jsx, lines 67--80)\<close>

definition setInterval :: "session \<Rightarrow> nat \<times> session" where
  \<comment> \<open>a new timer; its identifier is positive and not in use\<close>
  "setInterval s = (let i = Suc (foldr max (timers s) 0) in (i, s\<lparr>timers := timers s @ [i]\<rparr>))"

definition clearInterval :: "nat \<Rightarrow> session \<Rightarrow> session" where
  "clearInterval i s = s\<lparr>timers := removeAll i (timers s), cleared := cleared s @ [i]\<rparr>"

definition clearIfSet :: "nat option \<Rightarrow> session \<Rightarrow> session" where
  \<comment> \<open>\<open>if (refreshInterval) { clearInterval(refreshInterval); }\<close>: \<open>null\<close> and 0 are falsy\<close>
  "clearIfSet r s =
     (case r of None \<Rightarrow> s | Some i \<Rightarrow> if i \<noteq> 0 then clearInterval i s else s)"

definition useEffect_mount :: "platform \<Rightarrow> json response \<Rightarrow> session \<Rightarrow> session \<times> nat option" where
  \<comment> \<open>The effect has no dependencies, so it runs once, in the scope of the first render.
      The second component of the result is the \<open>refreshInterval\<close> of that render: the
      constant the cleanup function closes over. \<open>setRefreshInterval\<close> changes the state
      cell for later renders, not this constant.\<close>
  "useEffect_mount P resp s =
     (let captured = refreshInterval s;
          s1 = fetchAvailableSlots P True resp s;
          (interval, s2) = setInterval s1;
          s3 = s2\<lparr>refreshInterval := Some interval\<rparr>
      in (s3, captured))"

definition useEffect_cleanup :: "nat option \<Rightarrow> session \<Rightarrow> session" where
  \<comment> \<open>the function returned by the effect, run on unmount with the captured constant\<close>
  "useEffect_cleanup captured s = clearIfSet captured s"

definition intervalTick :: "platform \<Rightarrow> nat \<Rightarrow> json response \<Rightarrow> session \<Rightarrow> session" where
  \<comment> \<open>the callback of timer \<open>i\<close> after another 30 seconds, if the timer is still running\<close>
  "intervalTick P i resp s =
     (if i \<in> set (timers s) then fetchAvailableSlots P False resp s else s)"

subsection \<open>Selection and the slot list\<close>

definition handleSelectSlot :: "slot \<Rightarrow> session \<Rightarrow> session" where
  "handleSelectSlot sl s = s\<lparr>selectedSlot := Some sl\<rparr>"

definition changeSelection :: "session \<Rightarrow> session" where
  \<comment> \<open>the button \<open>Change Selection\<close>: \<open>setSelectedSlot(null)\<close>\<close>
  "changeSelection s = s\<lparr>selectedSlot := None\<rparr>"

definition objectPrototypeKeys :: "string list" where
  "objectPrototypeKeys =
     [''constructor'', ''hasOwnProperty'', ''isPrototypeOf'', ''propertyIsEnumerable'',
      ''toLocaleString'', ''toString'', ''valueOf'', ''__proto__'', ''__defineGetter__'',
      ''__defineSetter__'', ''__lookupGetter__'', ''__lookupSetter__'']"

fun pushGroup :: "slot \<Rightarrow> (string \<times> slot list) list \<Rightarrow> (string \<times> slot list) list" where
  "pushGroup sl [] = [(date sl, [sl])]"
| "pushGroup sl ((k, vs) # g) =
     (if k = date sl then (k, vs @ [sl]) # g else (k, vs) # pushGroup sl g)"

definition groupSlotsByDate :: "slot list \<Rightarrow> (string \<times> slot list) list option" where
  \<comment> \<open>The object \<open>grouped\<close> as the list of its properties, in the order the keys were
      added. \<open>None\<close> is the TypeError thrown when a date is the name of a property every
      object inherits: that property is truthy and has no \<open>push\<close>.\<close>
  "groupSlotsByDate slots =
     (if list_ex (\<lambda>sl. date sl \<in> set objectPrototypeKeys) slots then None
      else Some (foldl (\<lambda>g sl. pushGroup sl g) [] slots))"

definition isArrayIndex :: "string \<Rightarrow> bool" where
  \<comment> \<open>the canonical decimal text of an integer from 0 to \<open>2^32 - 2\<close>\<close>
  "isArrayIndex k =
     (k \<noteq> [] \<and> list_all isDigit k \<and> (k = ''0'' \<or> hd k \<noteq> CHR ''0'')
      \<and> digitsValue k < 4294967295)"

definition objectEntries :: "(string \<times> 'a) list \<Rightarrow> (string \<times> 'a) list" where
  \<comment> \<open>\<open>Object.entries\<close>: the keys that are array indices first, in ascending numeric
      order, then the other keys in the order they were added\<close>
  "objectEntries g =
     sort_key (\<lambda>e. digitsValue (fst e)) (filter (\<lambda>e. isArrayIndex (fst e)) g)
       @ filter (\<lambda>e. \<not> isArrayIndex (fst e)) g"

subsection \<open>Notifications and the booking request\<close>

definition nullReadMessage :: string where
  \<comment> \<open>the engine's message for a property read on \<open>null\<close>\<close>
  "nullReadMessage = ''Cannot read properties of null''"

definition bookingPrefix :: string where
  "bookingPrefix = ''Error booking appointment: ''"

definition fullName :: "booker \<Rightarrow> string" where
  "fullName u = firstName u @ '' '' @ lastName u"

definition ownerNotification :: "platform \<Rightarrow> slot \<Rightarrow> booker \<Rightarrow> request" where
  "ownerNotification P sl u =
     Notify ''owner''
       [(''slot_date'', formatDate P ''full'' (date sl)),
        (''slot_time'', formatTimeToStandard (Some (time sl))),
        (''client_name'', fullName u),
        (''client_email'', email u)]"

definition clientNotification :: "platform \<Rightarrow> slot \<Rightarrow> booker \<Rightarrow> request" where
  \<comment> \<open>the type is the constant \<open>scholarship\<close>\<close>
  "clientNotification P sl u =
     Notify ''scholarship''
       [(''first_name'', firstName u),
        (''to_email'', email u),
        (''day_of_week'', formatDate P ''weekday'' (date sl)),
        (''month'', formatDate P ''month'' (date sl)),
        (''day'', formatDate P ''day'' (date sl)),
        (''time'', formatTimeToStandard (Some (time sl)))]"

definition sendEmails :: "platform \<Rightarrow> booking_env \<Rightarrow> session \<Rightarrow> string + session" where
  \<comment> \<open>ClientInterface.jsx, lines 116--162. The reads of \<open>selectedSlot\<close> stand before the
      \<open>try\<close>: with no selection they throw (\<open>Inl\<close>). Inside the \<open>try\<close> the second request
      is awaited after the first, and a rejection of either ends the block.\<close>
  "sendEmails P env s =
     (case selectedSlot s of
        None \<Rightarrow> Inl nullReadMessage
      | Some sl \<Rightarrow>
          (let s1 = s\<lparr>requests := requests s @ [ownerNotification P sl (userInfo s)]\<rparr>
           in case owner_outcome env of
                Failed msg \<Rightarrow> Inr s1
              | Delivered \<Rightarrow>
                  Inr (s1\<lparr>requests := requests s1 @ [clientNotification P sl (userInfo s)]\<rparr>)))"

definition bookRequest :: "slot \<Rightarrow> booker \<Rightarrow> request" where
  "bookRequest sl u =
     Commit [(''slotId'', slot_id sl),
             (''clientName'', fullName u),
             (''clientEmail'', email u),
             (''zoomOption'', if isScholarship u then ''Yes'' else ''No'')]"

definition handleBooking :: "platform \<Rightarrow> booking_env \<Rightarrow> session \<Rightarrow> session" where
  \<comment> \<open>ClientInterface.jsx, lines 165--197\<close>
  "handleBooking P env s =
     (let s1 = s\<lparr>isLoading := True\<rparr>;
          s2 =
            (case selectedSlot s1 of
               None \<Rightarrow> s1\<lparr>errorMessage := bookingPrefix @ nullReadMessage\<rparr>
             | Some sl \<Rightarrow>
                 (let s3 = s1\<lparr>requests := requests s1 @ [bookRequest sl (userInfo s1)]\<rparr>
                  in case commit_response env of
                       Rejected msg \<Rightarrow> s3\<lparr>errorMessage := bookingPrefix @ msg\<rparr>
                     | Response ok body \<Rightarrow>
                         if \<not> ok then s3\<lparr>errorMessage := bookingPrefix @ ''Failed to book appointment''\<rparr>
                         else (case sendEmails P env s3 of
                                 Inl msg \<Rightarrow> s3\<lparr>errorMessage := bookingPrefix @ msg\<rparr>
                               | Inr s4 \<Rightarrow>
                                   (clearIfSet (refreshInterval s4) s4)\<lparr>bookingComplete := True\<rparr>)))
      in s2\<lparr>isLoading := False\<rparr>)"

definition operatorAddress :: string where
  "operatorAddress = ''kevincordero11.KC@gmail.com''"

definition ownerNotification_sheet :: "slot \<Rightarrow> booker \<Rightarrow> request" where
  "ownerNotification_sheet sl u =
     Notify ''template_rigyyhj''
       [(''slot_date'', date sl),
        (''slot_time'', time sl),
        (''client_name'', fullName u),
        (''client_email'', email u),
        (''to_email'', operatorAddress)]"

definition clientNotification_sheet :: "slot \<Rightarrow> booker \<Rightarrow> request" where
  "clientNotification_sheet sl u =
     Notify ''template_uj3y5pd''
       [(''slot_date'', date sl),
        (''slot_time'', time sl),
        (''client_name'', firstName u),
        (''to_email'', email u)]"

definition sendEmails_sheet :: "booking_env \<Rightarrow> session \<Rightarrow> session" where
  \<comment> \<open>part_000, lines 123--155: every read is inside the \<open>try\<close>, nothing is thrown\<close>
  "sendEmails_sheet env s =
     (case selectedSlot s of
        None \<Rightarrow> s
      | Some sl \<Rightarrow>
          (let s1 = s\<lparr>requests := requests s @ [ownerNotification_sheet sl (userInfo s)]\<rparr>
           in case owner_outcome env of
                Failed msg \<Rightarrow> s1
              | Delivered \<Rightarrow>
                  s1\<lparr>requests := requests s1 @ [clientNotification_sheet sl (userInfo s)]\<rparr>))"

definition patchRequest :: "platform \<Rightarrow> slot \<Rightarrow> booker \<Rightarrow> request" where
  "patchRequest P sl u =
     Commit [(''id'', slot_id sl),
             (''status'', ''Booked''),
             (''client_name'', fullName u),
             (''client_email'', email u),
             (''booking_date'', today P)]"

definition handleBooking_sheet :: "platform \<Rightarrow> booking_env \<Rightarrow> session \<Rightarrow> session" where
  \<comment> \<open>part_000, lines 81--120\<close>
  "handleBooking_sheet P env s =
     (let s1 = s\<lparr>isLoading := True\<rparr>;
          s2 =
            (case selectedSlot s1 of
               None \<Rightarrow> s1\<lparr>errorMessage := bookingPrefix @ nullReadMessage\<rparr>
             | Some sl \<Rightarrow>
                 (let s3 = s1\<lparr>requests := requests s1 @ [patchRequest P sl (userInfo s1)]\<rparr>
                  in case commit_response env of
                       Rejected msg \<Rightarrow> s3\<lparr>errorMessage := bookingPrefix @ msg\<rparr>
                     | Response ok body \<Rightarrow>
                         if \<not> ok then s3\<lparr>errorMessage := bookingPrefix @ ''Failed to book appointment''\<rparr>
                         else (let s4 = sendEmails_sheet env s3
                               in (clearIfSet (refreshInterval s4) s4)\<lparr>bookingComplete := True\<rparr>)))
      in s2\<lparr>isLoading := False\<rparr>)"

subsection \<open>The booking form (ClientInterface.jsx, lines 338--397; part_000, lines 250--291)\<close>

definition formValid :: "platform \<Rightarrow> booker \<Rightarrow> bool" where
  \<comment> \<open>The three inputs carry \<open>required\<close>, the third has type \<open>email\<close>: the browser
      validates them before it fires the form's submit event.\<close>
  "formValid P u =
     (firstName u \<noteq> [] \<and> lastName u \<noteq> [] \<and> email u \<noteq> [] \<and> validEmail P (email u))"

definition submitForm :: "platform \<Rightarrow> booking_env \<Rightarrow> session \<Rightarrow> session" where
  \<comment> \<open>\<open>onSubmit={handleBooking}\<close>: the handler runs only if the form is valid\<close>
  "submitForm P env s = (if formValid P (userInfo s) then handleBooking P env s else s)"

definition submitForm_sheet :: "platform \<Rightarrow> booking_env \<Rightarrow> session \<Rightarrow> session" where
  "submitForm_sheet P env s =
     (if formValid P (userInfo s) then handleBooking_sheet P env s else s)"

subsection \<open>What is displayed\<close>

datatype screen =
    LoadingScreen
  | ConfirmationScreen slot booker
  | ErrorScreen string
  | NoSlotsScreen
  | SlotListScreen "(string \<times> slot list) list"
  | BookingFormScreen slot booker
  | ErrorBanner string screen
  | RenderError

definition render :: "session \<Rightarrow> screen" where
  \<comment> \<open>ClientInterface.jsx, lines 199--401, in the order of the \<open>return\<close> statements.
      \<open>RenderError\<close> is an exception thrown while rendering.\<close>
  "render s =
     (if isLoading s \<and> \<not> bookingComplete s then LoadingScreen
      else if bookingComplete s then
        (case selectedSlot s of None \<Rightarrow> RenderError | Some sl \<Rightarrow> ConfirmationScreen sl (userInfo s))
      else if errorMessage s \<noteq> [] then ErrorScreen (errorMessage s)
      else if availableSlots s = [] then NoSlotsScreen
      else (case selectedSlot s of
              None \<Rightarrow> (case groupSlotsByDate (availableSlots s) of
                         None \<Rightarrow> RenderError
                       | Some g \<Rightarrow> SlotListScreen (objectEntries g))
            | Some sl \<Rightarrow> BookingFormScreen sl (userInfo s)))"

definition render_sheet :: "session \<Rightarrow> screen" where
  \<comment> \<open>part_000, lines 169--295: the error message is a banner above the list or the form;
      an empty list shows a message in place of the buttons\<close>
  "render_sheet s =
     (if isLoading s \<and> \<not> bookingComplete s then LoadingScreen
      else if bookingComplete s then
        (case selectedSlot s of None \<Rightarrow> RenderError | Some sl \<Rightarrow> ConfirmationScreen sl (userInfo s))
      else
        (let content =
               (case selectedSlot s of
                  None \<Rightarrow> if availableSlots s = [] then NoSlotsScreen
                          else (case groupSlotsByDate (availableSlots s) of
                                  None \<Rightarrow> RenderError
                                | Some g \<Rightarrow> SlotListScreen (objectEntries g))
                | Some sl \<Rightarrow> BookingFormScreen sl (userInfo s))
         in if content = RenderError then RenderError
            else if errorMessage s \<noteq> [] then ErrorBanner (errorMessage s) content
            else content))"

fun slotButtons :: "screen \<Rightarrow> slot list" where
  \<comment> \<open>The slots that have a button on a screen, in the order of the page:
      \<open>handleSelectSlot\<close> is called from the \<open>onClick\<close> of these buttons only. The list of
      part_000 keeps its buttons under the error banner.\<close>
  "slotButtons (SlotListScreen g) = concat (map snd g)"
| "slotButtons (ErrorBanner msg content) = slotButtons content"
| "slotButtons other = []"

definition offeredSlots :: "session \<Rightarrow> slot list" where
  "offeredSlots s = slotButtons (render s)"

definition offeredSlots_sheet :: "session \<Rightarrow> slot list" where
  "offeredSlots_sheet s = slotButtons (render_sheet s)"

definition clickSlot :: "nat \<Rightarrow> session \<Rightarrow> session" where
  \<comment> \<open>a click on the \<open>i\<close>-th button of the slot list, if there is one\<close>
  "clickSlot i s =
     (if i < length (offeredSlots s) then handleSelectSlot (offeredSlots s ! i) s else s)"

definition clickSlot_sheet :: "nat \<Rightarrow> session \<Rightarrow> session" where
  "clickSlot_sheet i s =
     (if i < length (offeredSlots_sheet s) then handleSelectSlot (offeredSlots_sheet s ! i) s
      else s)"

subsection \<open>An instance of the platform, for evaluation\<close>

definition isLeapYear :: "int \<Rightarrow> bool" where
  "isLeapYear y = (y mod 4 = 0 \<and> (y mod 100 \<noteq> 0 \<or> y mod 400 = 0))"

definition daysInMonth :: "int \<Rightarrow> int \<Rightarrow> int" where
  "daysInMonth y m =
     (if m = 2 then (if isLeapYear y then 29 else 28)
      else if m \<in> {4, 6, 9, 11} then 30 else 31)"

definition daysFromCivil :: "int \<Rightarrow> int \<Rightarrow> int \<Rightarrow> int" where
  \<comment> \<open>days between 1970-01-01 and the given day of the Gregorian calendar\<close>
  "daysFromCivil y m d =
     (let y1 = (if m \<le> 2 then y - 1 else y);
          era = y1 div 400;
          yoe = y1 - era * 400;
          doy = (153 * (if m > 2 then m - 3 else m + 9) + 2) div 5 + d - 1;
          doe = yoe * 365 + yoe div 4 - yoe div 100 + doy
      in era * 146097 + doe - 719468)"

definition isoDate :: "string \<Rightarrow> int option" where
  \<comment> \<open>The time value of a date-only string \<open>YYYY-MM-DD\<close>, the one date format the language
      fixes (midnight UTC of that day); every other string is Invalid Date here.\<close>
  "isoDate s =
     (if length s = 10 \<and> s ! 4 = CHR ''-'' \<and> s ! 7 = CHR ''-''
         \<and> list_all isDigit (take 4 s) \<and> list_all isDigit (take 2 (drop 5 s))
         \<and> list_all isDigit (drop 8 s)
      then
        (let y = digitsValue (take 4 s);
             m = digitsValue (take 2 (drop 5 s));
             d = digitsValue (drop 8 s)
         in if 1 \<le> m \<and> m \<le> 12 \<and> 1 \<le> d \<and> d \<le> daysInMonth y m
            then Some (daysFromCivil y m d * 86400000) else None)
      else None)"

fun codeUnitCompare :: "string \<Rightarrow> string \<Rightarrow> int" where
  \<comment> \<open>The lexicographic order of the character codes, as a comparator. The engines'
      \<open>localeCompare\<close> agrees with it on times written alike (zero-padded \<open>HH:MM\<close>), not on
      every string: it puts punctuation before digits and compares letters without case
      first.\<close>
  "codeUnitCompare [] [] = 0"
| "codeUnitCompare [] (y # ys) = - 1"
| "codeUnitCompare (x # xs) [] = 1"
| "codeUnitCompare (x # xs) (y # ys) =
     (if (of_char x :: nat) < of_char y then - 1
      else if (of_char y :: nat) < of_char x then 1
      else codeUnitCompare xs ys)"

definition referencePlatform :: platform where
  "referencePlatform =
     \<lparr> parseDate = isoDate, localeCompare = codeUnitCompare,
       formatDate = (\<lambda>what d. d), validEmail = (\<lambda>e. CHR ''@'' \<in> set e),
       today = ''2024-05-01'' \<rparr>"

subsection \<open>A session for evaluation\<close>

definition setUserInfo :: "booker \<Rightarrow> session \<Rightarrow> session" where
  \<comment> \<open>the \<open>onChange\<close> handlers of the form's inputs\<close>
  "setUserInfo u s = s\<lparr>userInfo := u\<rparr>"

definition scenarioSlot :: slot where
  "scenarioSlot =
     \<lparr> slot_id = ''1'', date = ''2024-05-01'', time = ''09:00'', status = Some ''Available'' \<rparr>"

definition scenarioBooker :: booker where
  "scenarioBooker =
     \<lparr> firstName = ''Ana'', lastName = ''Lee'', email = ''a@x.com'', isScholarship = False \<rparr>"

definition scenarioMounted :: session where
  \<comment> \<open>after the first render and the first poll, which returned one slot\<close>
  "scenarioMounted =
     fst (useEffect_mount referencePlatform (Response True (Rows [scenarioSlot])) initialSession)"

definition scenarioForm :: session where
  \<comment> \<open>the visitor has clicked the slot's button and filled in the form\<close>
  "scenarioForm = setUserInfo scenarioBooker (clickSlot 0 scenarioMounted)"

subsection \<open>Notions of the specification\<close>



section \<open>Properties\<close>

subsection \<open>Strings\<close>

lemma starts_with_append: "starts_with (p @ r) p"
  by (induction p) simp_all

lemma includes_append_right: "includes_str s p \<Longrightarrow> includes_str (q @ s) p"
  by (induction q) simp_all

lemma includes_self_append: "includes_str (p @ r) p"
  by (cases "p @ r") (use starts_with_append [of p r] in \<open>auto simp: starts_with_append\<close>)

lemma includes_infix: "includes_str (q @ p @ r) p"
  by (rule includes_append_right) (rule includes_self_append)

lemma toUpperCase_append: "toUpperCase (a @ b) = toUpperCase a @ toUpperCase b"
  by (simp add: toUpperCase_def)

lemma toUpperCase_AM: "toUpperCase ''AM'' = ''AM''"
  by (simp add: toUpperCase_def toUpperChar_def)

lemma toUpperCase_PM: "toUpperCase ''PM'' = ''PM''"
  by (simp add: toUpperCase_def toUpperChar_def)

lemma includes_upper_suffix_AM: "includes_str (toUpperCase (x @ ''AM'')) ''AM''"
  using includes_infix [of "toUpperCase x" "''AM''" "[]"]
  by (simp add: toUpperCase_append toUpperCase_AM)

lemma includes_upper_suffix_PM: "includes_str (toUpperCase (x @ ''PM'')) ''PM''"
  using includes_infix [of "toUpperCase x" "''PM''" "[]"]
  by (simp add: toUpperCase_append toUpperCase_PM)

subsection \<open>Time display\<close>

lemma formatTime_shape:
  "formatTimeToStandard (Some t) = []
   \<or> (formatTimeToStandard (Some t) = t \<and> t \<noteq> []
        \<and> (includes_str (toUpperCase t) ''AM'' \<or> includes_str (toUpperCase t) ''PM''))
   \<or> (\<exists>x. formatTimeToStandard (Some t) = x @ ''AM'')
   \<or> (\<exists>x. formatTimeToStandard (Some t) = x @ ''PM'')"
proof (cases "t = []")
  case True
  then show ?thesis by (simp add: formatTimeToStandard_def)
next
  case ne: False
  show ?thesis
  proof (cases "includes_str (toUpperCase t) ''AM'' \<or> includes_str (toUpperCase t) ''PM''")
    case True
    with ne have "formatTimeToStandard (Some t) = t" by (simp add: formatTimeToStandard_def)
    with ne True show ?thesis by simp
  next
    case False
    define pre where "pre = stringOfInt (case parseInt (hd (split_str (CHR '':'') t)) of
          Finite h \<Rightarrow> if remainder h 12 = 0 then 12 else remainder h 12
        | _ \<Rightarrow> 12) @ '':'' @
        (case tl (split_str (CHR '':'') t) of [] \<Rightarrow> ''undefined'' | m # _ \<Rightarrow> m) @ '' ''"
    define ampm where "ampm = (case parseInt (hd (split_str (CHR '':'') t)) of
          Finite h \<Rightarrow> if h \<ge> 12 then ''PM'' else ''AM''
        | PlusInfinity \<Rightarrow> ''PM''
        | _ \<Rightarrow> ''AM'')"
    have out: "formatTimeToStandard (Some t) = pre @ ampm"
      using ne False unfolding formatTimeToStandard_def pre_def ampm_def Let_def
      by (simp only: option.case if_False append_assoc)
    have "ampm = ''AM'' \<or> ampm = ''PM''"
      unfolding ampm_def by (cases "parseInt (hd (split_str (CHR '':'') t))") simp_all
    with out show ?thesis by blast
  qed
qed

lemma formatTime_fixed:
  assumes "y \<noteq> []" "includes_str (toUpperCase y) ''AM'' \<or> includes_str (toUpperCase y) ''PM''"
  shows "formatTimeToStandard (Some y) = y"
  using assms by (simp add: formatTimeToStandard_def)

lemma formatTime_fixed_AM: "formatTimeToStandard (Some (x @ ''AM'')) = x @ ''AM''"
  by (rule formatTime_fixed) (simp, rule disjI1, rule includes_upper_suffix_AM)

lemma formatTime_fixed_PM: "formatTimeToStandard (Some (x @ ''PM'')) = x @ ''PM''"
  by (rule formatTime_fixed) (simp, rule disjI2, rule includes_upper_suffix_PM)

text \<open>
  C10. \<open>formatTimeToStandard\<close> is idempotent: applied to its own result it returns that
  result, for every string and for a missing time; and it returns the empty string for the
  empty string and for a missing time.
\<close>

theorem formatTimeToStandard_idempotent:
  "formatTimeToStandard (Some (formatTimeToStandard t)) = formatTimeToStandard t
   \<and> formatTimeToStandard None = [] \<and> formatTimeToStandard (Some []) = []"
proof -
  have empty: "formatTimeToStandard None = []" "formatTimeToStandard (Some []) = []"
    by (simp_all add: formatTimeToStandard_def)
  have "formatTimeToStandard (Some (formatTimeToStandard t)) = formatTimeToStandard t"
  proof (cases t)
    case None
    then show ?thesis using empty by simp
  next
    case (Some u)
    from formatTime_shape [of u] show ?thesis
      unfolding Some using empty formatTime_fixed_AM formatTime_fixed_PM by auto
  qed
  with empty show ?thesis by simp
qed

subsection \<open>The lexicographic comparator is consistent\<close>




subsection \<open>Sorting\<close>

lemma mset_insertSorted: "mset (insertSorted cmp x ys) = add_mset x (mset ys)"
  by (induction ys) simp_all

lemma mset_arraySort: "mset (arraySort cmp xs) = mset xs"
  unfolding arraySort_def by (induction xs) (simp_all add: mset_insertSorted)

lemma set_arraySort: "set (arraySort cmp xs) = set xs"
  using mset_arraySort [of cmp xs] by (metis set_mset_mset)









subsection \<open>What a refresh changes\<close>

lemma fetch_failure:
  assumes "failureMessage resp = Some m"
  shows "availableSlots (fetchAvailableSlots P sl resp s) = availableSlots s"
    and "errorMessage (fetchAvailableSlots P sl resp s) = loadingPrefix @ m"
    and "availableSlots (fetchAvailableSlots_sheet P sl resp s) = availableSlots s"
    and "errorMessage (fetchAvailableSlots_sheet P sl resp s) = loadingPrefix @ m"
  using assms
  by (auto simp: fetchAvailableSlots_def fetchAvailableSlots_sheet_def failureMessage_def Let_def
      split: response.splits json.splits if_splits)

lemma fetch_success:
  shows "availableSlots (fetchAvailableSlots P sl (Response True (Rows data)) s)
           = arraySort (compareSlots P) data"
    and "errorMessage (fetchAvailableSlots P sl (Response True (Rows data)) s) = errorMessage s"
    and "availableSlots (fetchAvailableSlots_sheet P sl (Response True (Rows data)) s)
           = arraySort (compareSlots P) (filter (\<lambda>r. status r = Some ''Available'') data)"
    and "errorMessage (fetchAvailableSlots_sheet P sl (Response True (Rows data)) s) = errorMessage s"
  by (simp_all add: fetchAvailableSlots_def fetchAvailableSlots_sheet_def Let_def)

lemma fetch_frame:
  shows "selectedSlot (fetchAvailableSlots P sl resp s) = selectedSlot s"
    and "userInfo (fetchAvailableSlots P sl resp s) = userInfo s"
    and "bookingComplete (fetchAvailableSlots P sl resp s) = bookingComplete s"
    and "refreshInterval (fetchAvailableSlots P sl resp s) = refreshInterval s"
    and "timers (fetchAvailableSlots P sl resp s) = timers s"
    and "cleared (fetchAvailableSlots P sl resp s) = cleared s"
    and "isLoading (fetchAvailableSlots P sl resp s) = (if sl then False else isLoading s)"
    and "requests (fetchAvailableSlots P sl resp s) = requests s @ [ListSlots]"
  by (auto simp: fetchAvailableSlots_def Let_def split: response.splits json.splits)

lemma fetch_sheet_frame:
  shows "selectedSlot (fetchAvailableSlots_sheet P sl resp s) = selectedSlot s"
    and "userInfo (fetchAvailableSlots_sheet P sl resp s) = userInfo s"
    and "bookingComplete (fetchAvailableSlots_sheet P sl resp s) = bookingComplete s"
    and "refreshInterval (fetchAvailableSlots_sheet P sl resp s) = refreshInterval s"
    and "timers (fetchAvailableSlots_sheet P sl resp s) = timers s"
    and "cleared (fetchAvailableSlots_sheet P sl resp s) = cleared s"
    and "isLoading (fetchAvailableSlots_sheet P sl resp s) = (if sl then False else isLoading s)"
    and "requests (fetchAvailableSlots_sheet P sl resp s) = requests s @ [ListSlots]"
  by (auto simp: fetchAvailableSlots_sheet_def Let_def split: response.splits json.splits)

subsection \<open>Claims about the refresh\<close>



text \<open>
  Outside these rows the comparator does not reach the times: the difference of two
  dates that the platform cannot parse is NaN, which the comparator returns and the sort
  reads as 0, so two such rows stay as they came.
\<close>

lemma unparseable_dates_keep_order:
  "availableSlots (fetchAvailableSlots referencePlatform True (Response True (Rows
       [\<lparr>slot_id = ''1'', date = [], time = ''10:00'', status = Some ''Available''\<rparr>,
        \<lparr>slot_id = ''2'', date = [], time = ''09:00'', status = Some ''Available''\<rparr>]))
       initialSession)
     = [\<lparr>slot_id = ''1'', date = [], time = ''10:00'', status = Some ''Available''\<rparr>,
        \<lparr>slot_id = ''2'', date = [], time = ''09:00'', status = Some ''Available''\<rparr>]"
  by code_simp

text \<open>
  C3, amended. In the SheetDB variant every slot of the snapshot stored by a successful
  refresh has status \<open>Available\<close>. In the backend variant the poller does not filter: the
  snapshot holds exactly the rows of the response.
\<close>

theorem snapshot_available:
  "(\<forall>r\<in>set (availableSlots (fetchAvailableSlots_sheet P sl (Response True (Rows data)) s)).
       status r = Some ''Available'')
   \<and> mset (availableSlots (fetchAvailableSlots P sl (Response True (Rows data)) s)) = mset data"
  by (simp add: fetch_success set_arraySort mset_arraySort)

text \<open>C3, witness: the SheetDB variant drops a booked row.\<close>

theorem snapshot_available_witness:
  "list_all (\<lambda>r. status r = Some ''Available'')
     (availableSlots (fetchAvailableSlots_sheet referencePlatform True (Response True (Rows
        [\<lparr>slot_id = ''1'', date = ''2024-05-02'', time = ''09:00'', status = Some ''Booked''\<rparr>,
         \<lparr>slot_id = ''2'', date = ''2024-05-01'', time = ''10:00'', status = Some ''Available''\<rparr>]))
        initialSession))
   \<and> availableSlots (fetchAvailableSlots_sheet referencePlatform True (Response True (Rows
        [\<lparr>slot_id = ''1'', date = ''2024-05-02'', time = ''09:00'', status = Some ''Booked''\<rparr>,
         \<lparr>slot_id = ''2'', date = ''2024-05-01'', time = ''10:00'', status = Some ''Available''\<rparr>]))
        initialSession)
     = [\<lparr>slot_id = ''2'', date = ''2024-05-01'', time = ''10:00'', status = Some ''Available''\<rparr>]"
proof -
  have "availableSlots (fetchAvailableSlots_sheet referencePlatform True (Response True (Rows
        [\<lparr>slot_id = ''1'', date = ''2024-05-02'', time = ''09:00'', status = Some ''Booked''\<rparr>,
         \<lparr>slot_id = ''2'', date = ''2024-05-01'', time = ''10:00'', status = Some ''Available''\<rparr>]))
        initialSession)
     = [\<lparr>slot_id = ''2'', date = ''2024-05-01'', time = ''10:00'', status = Some ''Available''\<rparr>]"
    by code_simp
  with snapshot_available [of referencePlatform True
        "[\<lparr>slot_id = ''1'', date = ''2024-05-02'', time = ''09:00'', status = Some ''Booked''\<rparr>,
         \<lparr>slot_id = ''2'', date = ''2024-05-01'', time = ''10:00'', status = Some ''Available''\<rparr>]"
        initialSession]
  show ?thesis unfolding list_all_iff by blast
qed

text \<open>C3, counterexample: the backend variant keeps a booked row that the store returns.\<close>

theorem snapshot_available_counterexample:
  "\<not> (\<forall>r\<in>set (availableSlots (fetchAvailableSlots referencePlatform True (Response True (Rows
        [\<lparr>slot_id = ''1'', date = ''2024-05-02'', time = ''09:00'', status = Some ''Booked''\<rparr>,
         \<lparr>slot_id = ''2'', date = ''2024-05-01'', time = ''10:00'', status = Some ''Available''\<rparr>]))
        initialSession)).
       status r = Some ''Available'')"
  by code_simp

text \<open>
  C8. A refresh that fails (the request is rejected, the response is not ok, or the body
  cannot be decoded) leaves \<open>availableSlots\<close> as it was and sets the error message, in
  both variants and for both values of \<open>showLoading\<close>; unless the loading or the
  confirmation screen is up, the backend variant then shows the error screen.
\<close>

theorem failed_refresh_keeps_snapshot:
  assumes "failureMessage resp = Some m"
  shows "availableSlots (fetchAvailableSlots P sl resp s) = availableSlots s
       \<and> errorMessage (fetchAvailableSlots P sl resp s) = loadingPrefix @ m
       \<and> availableSlots (fetchAvailableSlots_sheet P sl resp s) = availableSlots s
       \<and> errorMessage (fetchAvailableSlots_sheet P sl resp s) = loadingPrefix @ m
       \<and> ((sl \<or> \<not> isLoading s) \<and> \<not> bookingComplete s
            \<longrightarrow> render (fetchAvailableSlots P sl resp s) = ErrorScreen (loadingPrefix @ m))"
proof -
  have "loadingPrefix @ m \<noteq> []" by (simp add: loadingPrefix_def)
  then show ?thesis
    using fetch_failure [OF assms, of P sl s]
    by (auto simp: render_def fetch_frame)
qed

text \<open>C8, witness: a rejected background poll with one slot in the snapshot.\<close>

theorem failed_refresh_keeps_snapshot_witness:
  "failureMessage (Rejected ''Failed to fetch'') = Some ''Failed to fetch''
   \<and> availableSlots (fetchAvailableSlots referencePlatform False (Rejected ''Failed to fetch'')
        (initialSession\<lparr>availableSlots :=
           [\<lparr>slot_id = ''1'', date = ''2024-05-01'', time = ''09:00'', status = None\<rparr>],
           isLoading := False\<rparr>))
     = [\<lparr>slot_id = ''1'', date = ''2024-05-01'', time = ''09:00'', status = None\<rparr>]
   \<and> render (fetchAvailableSlots referencePlatform False (Rejected ''Failed to fetch'')
        (initialSession\<lparr>availableSlots :=
           [\<lparr>slot_id = ''1'', date = ''2024-05-01'', time = ''09:00'', status = None\<rparr>],
           isLoading := False\<rparr>))
     = ErrorScreen ''Error loading available slots: Failed to fetch''"
proof -
  have h: "failureMessage (Rejected ''Failed to fetch'') = Some ''Failed to fetch''"
    by (simp add: failureMessage_def)
  from failed_refresh_keeps_snapshot [OF h, of referencePlatform False
      "initialSession\<lparr>availableSlots :=
           [\<lparr>slot_id = ''1'', date = ''2024-05-01'', time = ''09:00'', status = None\<rparr>],
           isLoading := False\<rparr>"]
  show ?thesis using h by (simp add: initialSession_def loadingPrefix_def)
qed

lemma arraySort_empty: "arraySort cmp xs = [] \<longleftrightarrow> xs = []"
  using mset_arraySort [of cmp xs] by (metis mset_zero_iff)

lemma background_success_sheet:
  assumes "selectedSlot s \<noteq> None"
  shows "render_sheet (fetchAvailableSlots_sheet P False (Response True (Rows data)) s)
           = render_sheet s"
  using assms
  by (auto simp: render_sheet_def Let_def fetch_sheet_frame fetch_success split: option.splits)

lemma background_success:
  assumes "selectedSlot s \<noteq> None" "data = [] \<longleftrightarrow> availableSlots s = []"
  shows "render (fetchAvailableSlots P False (Response True (Rows data)) s) = render s"
  using assms
  by (auto simp: render_def fetch_frame fetch_success arraySort_empty split: option.splits)

lemma background_success_empty:
  assumes "\<not> isLoading s" "\<not> bookingComplete s" "errorMessage s = []"
  shows "render (fetchAvailableSlots P False (Response True (Rows [])) s) = NoSlotsScreen"
  using assms by (simp add: render_def fetch_frame fetch_success arraySort_def)

text \<open>
  C7, amended. A refresh with \<open>showLoading = false\<close> leaves the loading flag, the selection,
  the form contents, \<open>bookingComplete\<close> and the timer as they were, in both variants, and
  leaves the loading and the confirmation screen as they were. While a slot is selected, a
  successful background poll leaves the display of part_000 as it was, and that of the
  backend variant as long as the new list and the old one are both empty or both not:
  when the poll returns no slot, the backend variant shows the no-slots screen in place of
  the form. A failed background poll changes what is displayed: the backend variant
  replaces it by the error screen, part_000 puts the error banner above it.
\<close>

theorem background_refresh_frame:
  "isLoading (fetchAvailableSlots P False resp s) = isLoading s
   \<and> selectedSlot (fetchAvailableSlots P False resp s) = selectedSlot s
   \<and> userInfo (fetchAvailableSlots P False resp s) = userInfo s
   \<and> bookingComplete (fetchAvailableSlots P False resp s) = bookingComplete s
   \<and> refreshInterval (fetchAvailableSlots P False resp s) = refreshInterval s
   \<and> timers (fetchAvailableSlots P False resp s) = timers s
   \<and> isLoading (fetchAvailableSlots_sheet P False resp s) = isLoading s
   \<and> selectedSlot (fetchAvailableSlots_sheet P False resp s) = selectedSlot s
   \<and> userInfo (fetchAvailableSlots_sheet P False resp s) = userInfo s
   \<and> bookingComplete (fetchAvailableSlots_sheet P False resp s) = bookingComplete s
   \<and> refreshInterval (fetchAvailableSlots_sheet P False resp s) = refreshInterval s
   \<and> timers (fetchAvailableSlots_sheet P False resp s) = timers s
   \<and> (isLoading s \<or> bookingComplete s
        \<longrightarrow> render (fetchAvailableSlots P False resp s) = render s
          \<and> render_sheet (fetchAvailableSlots_sheet P False resp s) = render_sheet s)
   \<and> (selectedSlot s \<noteq> None
        \<longrightarrow> render_sheet (fetchAvailableSlots_sheet P False (Response True (Rows data)) s)
              = render_sheet s)
   \<and> (selectedSlot s \<noteq> None \<and> (data = [] \<longleftrightarrow> availableSlots s = [])
        \<longrightarrow> render (fetchAvailableSlots P False (Response True (Rows data)) s) = render s)
   \<and> (\<not> isLoading s \<and> \<not> bookingComplete s \<and> errorMessage s = []
        \<longrightarrow> render (fetchAvailableSlots P False (Response True (Rows [])) s) = NoSlotsScreen)
   \<and> (\<not> isLoading s \<and> \<not> bookingComplete s \<and> failureMessage resp = Some m
        \<longrightarrow> render (fetchAvailableSlots P False resp s) = ErrorScreen (loadingPrefix @ m))
   \<and> (\<not> isLoading s \<and> \<not> bookingComplete s \<and> failureMessage resp = Some m
        \<and> errorMessage s = [] \<and> render_sheet s \<noteq> RenderError
        \<longrightarrow> render_sheet (fetchAvailableSlots_sheet P False resp s)
              = ErrorBanner (loadingPrefix @ m) (render_sheet s))"
proof -
  have ne: "loadingPrefix @ m \<noteq> []" by (simp add: loadingPrefix_def)
  have c: "\<not> isLoading s \<and> \<not> bookingComplete s \<and> failureMessage resp = Some m
        \<and> errorMessage s = [] \<and> render_sheet s \<noteq> RenderError
        \<longrightarrow> render_sheet (fetchAvailableSlots_sheet P False resp s)
              = ErrorBanner (loadingPrefix @ m) (render_sheet s)"
    using ne
    by (auto simp: render_sheet_def Let_def fetch_sheet_frame fetch_failure split: option.splits)
  have a: "isLoading s \<or> bookingComplete s
        \<longrightarrow> render (fetchAvailableSlots P False resp s) = render s
          \<and> render_sheet (fetchAvailableSlots_sheet P False resp s) = render_sheet s"
    by (auto simp: render_def render_sheet_def fetch_frame fetch_sheet_frame split: option.splits)
  have b: "\<not> isLoading s \<and> \<not> bookingComplete s \<and> failureMessage resp = Some m
        \<longrightarrow> render (fetchAvailableSlots P False resp s) = ErrorScreen (loadingPrefix @ m)"
    using ne by (auto simp: render_def fetch_frame fetch_failure)
  have d: "selectedSlot s \<noteq> None
        \<longrightarrow> render_sheet (fetchAvailableSlots_sheet P False (Response True (Rows data)) s)
              = render_sheet s"
    using background_success_sheet by blast
  have e: "selectedSlot s \<noteq> None \<and> (data = [] \<longleftrightarrow> availableSlots s = [])
        \<longrightarrow> render (fetchAvailableSlots P False (Response True (Rows data)) s) = render s"
    using background_success by blast
  have f: "\<not> isLoading s \<and> \<not> bookingComplete s \<and> errorMessage s = []
        \<longrightarrow> render (fetchAvailableSlots P False (Response True (Rows [])) s) = NoSlotsScreen"
    using background_success_empty by blast
  show ?thesis
    by (intro conjI a b c d e f) (simp_all add: fetch_frame fetch_sheet_frame)
qed

text \<open>
  C7, witness: the booking form is filled in when a background poll is rejected, when one
  returns the slot again, and when one returns no slot; and a rejected poll during loading.
\<close>

theorem background_refresh_frame_witness:
  "selectedSlot (fetchAvailableSlots referencePlatform False (Rejected ''Failed to fetch'') scenarioForm)
     = Some scenarioSlot
   \<and> userInfo (fetchAvailableSlots referencePlatform False (Rejected ''Failed to fetch'') scenarioForm)
     = scenarioBooker
   \<and> isLoading (fetchAvailableSlots referencePlatform False (Rejected ''Failed to fetch'') scenarioForm)
     = False
   \<and> render (fetchAvailableSlots referencePlatform False (Rejected ''Failed to fetch'') scenarioForm)
     = ErrorScreen ''Error loading available slots: Failed to fetch''
   \<and> render_sheet (fetchAvailableSlots_sheet referencePlatform False (Rejected ''Failed to fetch'')
        scenarioForm)
     = ErrorBanner ''Error loading available slots: Failed to fetch''
         (BookingFormScreen scenarioSlot scenarioBooker)
   \<and> render (fetchAvailableSlots referencePlatform False (Rejected ''Failed to fetch'') initialSession)
     = LoadingScreen
   \<and> render (fetchAvailableSlots referencePlatform False (Response True (Rows [scenarioSlot]))
        scenarioForm)
     = BookingFormScreen scenarioSlot scenarioBooker
   \<and> render_sheet (fetchAvailableSlots_sheet referencePlatform False (Response True (Rows []))
        scenarioForm)
     = BookingFormScreen scenarioSlot scenarioBooker
   \<and> render (fetchAvailableSlots referencePlatform False (Response True (Rows [])) scenarioForm)
     = NoSlotsScreen"
proof -
  have s: "selectedSlot scenarioForm = Some scenarioSlot" "userInfo scenarioForm = scenarioBooker"
    "\<not> isLoading scenarioForm" "\<not> bookingComplete scenarioForm" "errorMessage scenarioForm = []"
    "render_sheet scenarioForm = BookingFormScreen scenarioSlot scenarioBooker"
    "render scenarioForm = BookingFormScreen scenarioSlot scenarioBooker"
    "availableSlots scenarioForm \<noteq> []"
    by code_simp+
  have i: "isLoading initialSession" "render initialSession = LoadingScreen"
    by code_simp+
  have f: "failureMessage (Rejected ''Failed to fetch'') = Some ''Failed to fetch''"
    by (simp add: failureMessage_def)
  from background_refresh_frame [of referencePlatform "Rejected ''Failed to fetch''" scenarioForm
      "[scenarioSlot]" "''Failed to fetch''"]
    background_refresh_frame [of referencePlatform "Rejected ''Failed to fetch''" scenarioForm
      "[]" "''Failed to fetch''"]
    background_refresh_frame [of referencePlatform "Rejected ''Failed to fetch''" initialSession
      "[]" "''Failed to fetch''"] s i f
  show ?thesis by (simp add: loadingPrefix_def)
qed

text \<open>
  C7, counterexample: the booking form is displayed; a rejected background poll puts the
  error screen in its place, and a successful background poll that returns no slot puts
  the no-slots screen in its place.
\<close>

theorem background_refresh_counterexample:
  "render scenarioForm = BookingFormScreen scenarioSlot scenarioBooker
   \<and> render (fetchAvailableSlots referencePlatform False (Rejected ''Failed to fetch'') scenarioForm)
     = ErrorScreen ''Error loading available slots: Failed to fetch''
   \<and> render (fetchAvailableSlots referencePlatform False (Response True (Rows [])) scenarioForm)
     = NoSlotsScreen"
  by code_simp

subsection \<open>What a booking changes\<close>

lemma sendEmails_selected:
  assumes "selectedSlot s = Some sl"
  shows "sendEmails P env s =
           Inr (s\<lparr>requests := requests s @
                  (if owner_outcome env = Delivered
                   then [ownerNotification P sl (userInfo s), clientNotification P sl (userInfo s)]
                   else [ownerNotification P sl (userInfo s)])\<rparr>)"
  using assms by (cases "owner_outcome env") (simp_all add: sendEmails_def Let_def)

lemma sendEmails_sheet_selected:
  assumes "selectedSlot s = Some sl"
  shows "sendEmails_sheet env s =
           s\<lparr>requests := requests s @
                  (if owner_outcome env = Delivered
                   then [ownerNotification_sheet sl (userInfo s), clientNotification_sheet sl (userInfo s)]
                   else [ownerNotification_sheet sl (userInfo s)])\<rparr>"
  using assms by (cases "owner_outcome env") (simp_all add: sendEmails_sheet_def Let_def)

lemma clearIfSet_frame:
  "availableSlots (clearIfSet r s) = availableSlots s"
  "selectedSlot (clearIfSet r s) = selectedSlot s"
  "userInfo (clearIfSet r s) = userInfo s"
  "bookingComplete (clearIfSet r s) = bookingComplete s"
  "isLoading (clearIfSet r s) = isLoading s"
  "errorMessage (clearIfSet r s) = errorMessage s"
  "refreshInterval (clearIfSet r s) = refreshInterval s"
  "requests (clearIfSet r s) = requests s"
  by (simp_all add: clearIfSet_def clearInterval_def split: option.splits)

lemma handleBooking_committed:
  assumes "selectedSlot s = Some sl" "commit_response env = Response True b"
  shows "bookingComplete (handleBooking P env s)"
    and "\<not> isLoading (handleBooking P env s)"
    and "selectedSlot (handleBooking P env s) = Some sl"
    and "userInfo (handleBooking P env s) = userInfo s"
    and "errorMessage (handleBooking P env s) = errorMessage s"
    and "availableSlots (handleBooking P env s) = availableSlots s"
    and "requests (handleBooking P env s) =
           requests s @ [bookRequest sl (userInfo s)] @
             (if owner_outcome env = Delivered
              then [ownerNotification P sl (userInfo s), clientNotification P sl (userInfo s)]
              else [ownerNotification P sl (userInfo s)])"
    and "timers (handleBooking P env s) = timers (clearIfSet (refreshInterval s) s)"
    and "cleared (handleBooking P env s) = cleared (clearIfSet (refreshInterval s) s)"
  using assms
  by (simp_all add: handleBooking_def Let_def sendEmails_selected clearIfSet_frame
        clearIfSet_def clearInterval_def split: option.splits)

lemma handleBooking_sheet_committed:
  assumes "selectedSlot s = Some sl" "commit_response env = Response True b"
  shows "bookingComplete (handleBooking_sheet P env s)"
    and "\<not> isLoading (handleBooking_sheet P env s)"
    and "selectedSlot (handleBooking_sheet P env s) = Some sl"
    and "userInfo (handleBooking_sheet P env s) = userInfo s"
    and "errorMessage (handleBooking_sheet P env s) = errorMessage s"
    and "availableSlots (handleBooking_sheet P env s) = availableSlots s"
    and "requests (handleBooking_sheet P env s) =
           requests s @ [patchRequest P sl (userInfo s)] @
             (if owner_outcome env = Delivered
              then [ownerNotification_sheet sl (userInfo s), clientNotification_sheet sl (userInfo s)]
              else [ownerNotification_sheet sl (userInfo s)])"
    and "timers (handleBooking_sheet P env s) = timers (clearIfSet (refreshInterval s) s)"
    and "cleared (handleBooking_sheet P env s) = cleared (clearIfSet (refreshInterval s) s)"
  using assms
  by (simp_all add: handleBooking_sheet_def Let_def sendEmails_sheet_selected clearIfSet_frame
        clearIfSet_def clearInterval_def split: option.splits)

subsection \<open>Claims about selection, booking and the timer\<close>

lemma pushGroup_slots:
  "(\<Union>a\<in>set (pushGroup sl g). set (snd a)) = insert sl (\<Union>a\<in>set g. set (snd a))"
  by (induction sl g rule: pushGroup.induct) auto

lemma foldl_pushGroup_slots:
  "(\<Union>a\<in>set (foldl (\<lambda>g sl. pushGroup sl g) g0 slots). set (snd a))
     = set slots \<union> (\<Union>a\<in>set g0. set (snd a))"
proof (induction slots arbitrary: g0)
  case Nil
  then show ?case by simp
next
  case (Cons x xs)
  have "(\<Union>a\<in>set (foldl (\<lambda>g sl. pushGroup sl g) (pushGroup x g0) xs). set (snd a))
          = set xs \<union> (\<Union>a\<in>set (pushGroup x g0). set (snd a))"
    by (rule Cons.IH)
  then show ?case by (simp only: foldl_Cons pushGroup_slots list.set) blast
qed

lemma grouped_slots:
  assumes "groupSlotsByDate slots = Some g"
  shows "(\<Union>a\<in>set g. set (snd a)) = set slots"
proof -
  from assms have "g = foldl (\<lambda>g sl. pushGroup sl g) [] slots"
    by (simp add: groupSlotsByDate_def split: if_splits)
  then show ?thesis using foldl_pushGroup_slots [of "[]" slots] by simp
qed

lemma set_objectEntries: "set (objectEntries g) = set g"
  by (auto simp: objectEntries_def)

lemma entries_slots:
  assumes "groupSlotsByDate slots = Some g"
  shows "set (slotButtons (SlotListScreen (objectEntries g))) = set slots"
  using grouped_slots [OF assms] by (simp add: set_objectEntries)

lemma offered_in_snapshot: "set (offeredSlots s) \<subseteq> set (availableSlots s)"
proof (cases "groupSlotsByDate (availableSlots s)")
  case None
  then show ?thesis
    by (simp add: offeredSlots_def render_def split: option.splits)
next
  case (Some g)
  from entries_slots [OF this] Some show ?thesis
    by (simp add: offeredSlots_def render_def split: option.splits)
qed

lemma offered_sheet_in_snapshot: "set (offeredSlots_sheet s) \<subseteq> set (availableSlots s)"
proof (cases "groupSlotsByDate (availableSlots s)")
  case None
  then show ?thesis
    by (simp add: offeredSlots_sheet_def render_sheet_def Let_def split: option.splits)
next
  case (Some g)
  from entries_slots [OF this] Some show ?thesis
    by (simp add: offeredSlots_sheet_def render_sheet_def Let_def split: option.splits)
qed

lemma handleBooking_selectedSlot:
  "selectedSlot (handleBooking P env s) = selectedSlot s"
  "selectedSlot (handleBooking_sheet P env s) = selectedSlot s"
  by (auto simp: handleBooking_def handleBooking_sheet_def Let_def sendEmails_def
        sendEmails_sheet_def clearIfSet_frame
      split: option.splits response.splits outcome.splits sum.splits)

text \<open>
  C9. A selection is made by a click on a button of the slot list and by nothing else.
  Every button stands for a slot of the snapshot that is current at the click, so the
  slot selected is a slot of that snapshot; where the list has no such button, the click
  selects nothing. Every other operation keeps the selection or clears it. This holds in
  both variants.
\<close>

theorem selection_from_snapshot:
  "(i < length (offeredSlots s)
      \<longrightarrow> (\<exists>x\<in>set (availableSlots s). selectedSlot (clickSlot i s) = Some x))
   \<and> (\<not> i < length (offeredSlots s) \<longrightarrow> selectedSlot (clickSlot i s) = selectedSlot s)
   \<and> (i < length (offeredSlots_sheet s)
      \<longrightarrow> (\<exists>x\<in>set (availableSlots s). selectedSlot (clickSlot_sheet i s) = Some x))
   \<and> (\<not> i < length (offeredSlots_sheet s)
      \<longrightarrow> selectedSlot (clickSlot_sheet i s) = selectedSlot s)
   \<and> selectedSlot (changeSelection s) = None
   \<and> selectedSlot (setUserInfo u s) = selectedSlot s
   \<and> selectedSlot (fetchAvailableSlots P sl resp s) = selectedSlot s
   \<and> selectedSlot (fetchAvailableSlots_sheet P sl resp s) = selectedSlot s
   \<and> selectedSlot (intervalTick P k resp s) = selectedSlot s
   \<and> selectedSlot (submitForm P env s) = selectedSlot s
   \<and> selectedSlot (submitForm_sheet P env s) = selectedSlot s"
proof -
  have a: "i < length (offeredSlots s)
      \<longrightarrow> (\<exists>x\<in>set (availableSlots s). selectedSlot (clickSlot i s) = Some x)"
    using offered_in_snapshot [of s] nth_mem [of i "offeredSlots s"]
    by (auto simp: handleSelectSlot_def clickSlot_def)
  have b: "i < length (offeredSlots_sheet s)
      \<longrightarrow> (\<exists>x\<in>set (availableSlots s). selectedSlot (clickSlot_sheet i s) = Some x)"
    using offered_sheet_in_snapshot [of s] nth_mem [of i "offeredSlots_sheet s"]
    by (auto simp: handleSelectSlot_def clickSlot_sheet_def)
  show ?thesis
    by (intro conjI a b)
      (simp_all add: clickSlot_def clickSlot_sheet_def changeSelection_def setUserInfo_def
        fetch_frame fetch_sheet_frame intervalTick_def submitForm_def submitForm_sheet_def
        handleBooking_selectedSlot)
qed

text \<open>
  C9, witness: after the first poll the list has one button; a click on it selects the
  slot of the snapshot, and a click where there is no second button selects nothing.
\<close>

theorem selection_from_snapshot_witness:
  "offeredSlots scenarioMounted = [scenarioSlot]
   \<and> availableSlots scenarioMounted = [scenarioSlot]
   \<and> selectedSlot (clickSlot 0 scenarioMounted) = Some scenarioSlot
   \<and> selectedSlot (clickSlot_sheet 0 scenarioMounted) = Some scenarioSlot
   \<and> selectedSlot (clickSlot 1 scenarioMounted) = None
   \<and> selectedSlot (clickSlot_sheet 1 scenarioMounted) = None"
proof -
  have o: "offeredSlots scenarioMounted = [scenarioSlot]"
    "offeredSlots_sheet scenarioMounted = [scenarioSlot]"
    "availableSlots scenarioMounted = [scenarioSlot]"
    "selectedSlot scenarioMounted = None"
    by code_simp+
  from selection_from_snapshot [of 0 scenarioMounted] selection_from_snapshot [of 1 scenarioMounted] o
  show ?thesis by simp
qed

text \<open>
  C1. A submission of the booking form in which the first name, the last name or the
  e-mail address is empty changes nothing: \<open>handleBooking\<close> does not run, so no booking
  request is sent and the loading flag is not set. This holds in both variants.
\<close>

theorem empty_field_blocks_commit:
  assumes "firstName (userInfo s) = [] \<or> lastName (userInfo s) = [] \<or> email (userInfo s) = []"
  shows "submitForm P env s = s \<and> submitForm_sheet P env s = s"
  using assms by (auto simp: submitForm_def submitForm_sheet_def formValid_def)

text \<open>C1, witness: the form with an empty e-mail address; the only request so far is the first poll.\<close>

theorem empty_field_blocks_commit_witness:
  "submitForm referencePlatform
       \<lparr>commit_response = Response True (), owner_outcome = Delivered, client_outcome = Delivered\<rparr>
       (setUserInfo (scenarioBooker\<lparr>email := []\<rparr>) scenarioForm)
     = setUserInfo (scenarioBooker\<lparr>email := []\<rparr>) scenarioForm
   \<and> requests (submitForm referencePlatform
       \<lparr>commit_response = Response True (), owner_outcome = Delivered, client_outcome = Delivered\<rparr>
       (setUserInfo (scenarioBooker\<lparr>email := []\<rparr>) scenarioForm))
     = [ListSlots]"
proof -
  have e: "firstName (userInfo (setUserInfo (scenarioBooker\<lparr>email := []\<rparr>) scenarioForm)) = []
      \<or> lastName (userInfo (setUserInfo (scenarioBooker\<lparr>email := []\<rparr>) scenarioForm)) = []
      \<or> email (userInfo (setUserInfo (scenarioBooker\<lparr>email := []\<rparr>) scenarioForm)) = []"
    by (simp add: setUserInfo_def)
  have r: "requests (setUserInfo (scenarioBooker\<lparr>email := []\<rparr>) scenarioForm) = [ListSlots]"
    by code_simp
  from empty_field_blocks_commit [OF e] r show ?thesis by simp
qed

text \<open>
  The check is the form's, not the handler's: \<open>handleBooking\<close> itself sends the booking
  request whatever the fields hold.
\<close>

lemma handleBooking_unvalidated:
  "requests (handleBooking referencePlatform
       \<lparr>commit_response = Response True (), owner_outcome = Delivered, client_outcome = Delivered\<rparr>
       (setUserInfo (scenarioBooker\<lparr>email := []\<rparr>) scenarioForm)) ! 1
     = bookRequest scenarioSlot (scenarioBooker\<lparr>email := []\<rparr>)"
  by code_simp

text \<open>
  C5. When the booking request succeeds, the confirmation screen with the selected slot and
  the form contents is displayed and the error message is not touched, whatever the
  outcome of the two notifications. This holds in both variants.
\<close>

theorem notification_failure_keeps_confirmed:
  assumes "selectedSlot s = Some sl" "commit_response env = Response True b"
  shows "render (handleBooking P env s) = ConfirmationScreen sl (userInfo s)
       \<and> errorMessage (handleBooking P env s) = errorMessage s
       \<and> render_sheet (handleBooking_sheet P env s) = ConfirmationScreen sl (userInfo s)
       \<and> errorMessage (handleBooking_sheet P env s) = errorMessage s"
  using handleBooking_committed(1-5) [OF assms, of P] handleBooking_sheet_committed(1-5) [OF assms, of P]
  by (simp add: render_def render_sheet_def)

text \<open>C5, witness: both notifications fail.\<close>

theorem notification_failure_keeps_confirmed_witness:
  "render (handleBooking referencePlatform
       \<lparr>commit_response = Response True (), owner_outcome = Failed ''Failed to fetch'',
        client_outcome = Failed ''Failed to fetch''\<rparr> scenarioForm)
     = ConfirmationScreen scenarioSlot scenarioBooker
   \<and> errorMessage (handleBooking referencePlatform
       \<lparr>commit_response = Response True (), owner_outcome = Failed ''Failed to fetch'',
        client_outcome = Failed ''Failed to fetch''\<rparr> scenarioForm)
     = []"
proof -
  have s: "selectedSlot scenarioForm = Some scenarioSlot" "userInfo scenarioForm = scenarioBooker"
    "errorMessage scenarioForm = []"
    by code_simp+
  have c: "commit_response \<lparr>commit_response = Response True (), owner_outcome = Failed ''Failed to fetch'',
        client_outcome = Failed ''Failed to fetch''\<rparr> = Response True ()"
    by simp
  from notification_failure_keeps_confirmed [OF s(1) c, of referencePlatform] s(2,3)
  show ?thesis by simp
qed

text \<open>
  C6, amended. After a successful booking request the owner notification is sent first;
  the client notification, addressed to the booker's e-mail, is sent only if the owner
  notification did not fail. The client notification does not depend on \<open>isScholarship\<close>:
  its type is always \<open>scholarship\<close> in the backend variant, and the SheetDB variant has one
  template. The flag selects the \<open>zoomOption\<close> of the booking request.
\<close>

theorem notifications_after_commit:
  assumes "selectedSlot s = Some sl" "commit_response env = Response True b"
  shows "requests (handleBooking P env s) =
           requests s @ [bookRequest sl (userInfo s)] @
             (if owner_outcome env = Delivered
              then [ownerNotification P sl (userInfo s), clientNotification P sl (userInfo s)]
              else [ownerNotification P sl (userInfo s)])
       \<and> requests (handleBooking_sheet P env s) =
           requests s @ [patchRequest P sl (userInfo s)] @
             (if owner_outcome env = Delivered
              then [ownerNotification_sheet sl (userInfo s), clientNotification_sheet sl (userInfo s)]
              else [ownerNotification_sheet sl (userInfo s)])
       \<and> clientNotification P sl (u\<lparr>isScholarship := f\<rparr>) = clientNotification P sl u
       \<and> clientNotification_sheet sl (u\<lparr>isScholarship := f\<rparr>) = clientNotification_sheet sl u"
  using handleBooking_committed(7) [OF assms, of P] handleBooking_sheet_committed(7) [OF assms, of P]
  by (simp add: clientNotification_def clientNotification_sheet_def)

text \<open>C6, witness: both notifications are delivered.\<close>

theorem notifications_after_commit_witness:
  "requests (handleBooking referencePlatform
       \<lparr>commit_response = Response True (), owner_outcome = Delivered, client_outcome = Delivered\<rparr>
       scenarioForm)
     = [ListSlots, bookRequest scenarioSlot scenarioBooker,
        ownerNotification referencePlatform scenarioSlot scenarioBooker,
        clientNotification referencePlatform scenarioSlot scenarioBooker]"
proof -
  have s: "selectedSlot scenarioForm = Some scenarioSlot" "userInfo scenarioForm = scenarioBooker"
    "requests scenarioForm = [ListSlots]"
    by code_simp+
  have c: "commit_response \<lparr>commit_response = Response True (), owner_outcome = Delivered,
        client_outcome = Delivered\<rparr> = Response True ()"
    by simp
  from notifications_after_commit [OF s(1) c, of referencePlatform] s(2,3)
  show ?thesis by simp
qed

text \<open>
  C6, counterexample: the owner notification fails, so one notification is attempted and
  none reaches the booker; and the client notification is the same for both values of the
  flag.
\<close>

theorem notifications_after_commit_counterexample:
  "requests (handleBooking referencePlatform
       \<lparr>commit_response = Response True (), owner_outcome = Failed ''Failed to fetch'',
        client_outcome = Delivered\<rparr> scenarioForm)
     = [ListSlots, bookRequest scenarioSlot scenarioBooker,
        ownerNotification referencePlatform scenarioSlot scenarioBooker]
   \<and> clientNotification referencePlatform scenarioSlot (scenarioBooker\<lparr>isScholarship := True\<rparr>)
     = clientNotification referencePlatform scenarioSlot (scenarioBooker\<lparr>isScholarship := False\<rparr>)"
  by code_simp

text \<open>
  C2, at the failing input: the component is mounted and unmounted before any booking. The
  cleanup reads the \<open>refreshInterval\<close> of the first render, which is \<open>null\<close>, so
  \<open>clearInterval\<close> is never called: the timer is still running after the unmount and its
  next tick sends another list request.
\<close>

theorem unmount_leaves_timer_running:
  "timers (useEffect_cleanup (snd (useEffect_mount P resp initialSession))
             (fst (useEffect_mount P resp initialSession))) = [1]
   \<and> cleared (useEffect_cleanup (snd (useEffect_mount P resp initialSession))
             (fst (useEffect_mount P resp initialSession))) = []
   \<and> requests (intervalTick P 1 resp2
        (useEffect_cleanup (snd (useEffect_mount P resp initialSession))
             (fst (useEffect_mount P resp initialSession)))) = [ListSlots, ListSlots]"
  by (simp add: useEffect_mount_def useEffect_cleanup_def clearIfSet_def setInterval_def Let_def
        intervalTick_def fetchAvailableSlots_def initialSession_def
        split: response.splits json.splits)

text \<open>
  The other half of C2 holds on the happy path: the booking clears the timer once, a later
  tick does nothing, and the cleanup at unmount does not clear it again.
\<close>

lemma booking_stops_timer:
  "timers (submitForm referencePlatform
       \<lparr>commit_response = Response True (), owner_outcome = Delivered, client_outcome = Delivered\<rparr>
       scenarioForm) = []
   \<and> cleared (useEffect_cleanup
        (snd (useEffect_mount referencePlatform (Response True (Rows [scenarioSlot])) initialSession))
        (submitForm referencePlatform
           \<lparr>commit_response = Response True (), owner_outcome = Delivered, client_outcome = Delivered\<rparr>
           scenarioForm)) = [1]
   \<and> requests (intervalTick referencePlatform 1 (Response True (Rows []))
        (submitForm referencePlatform
           \<lparr>commit_response = Response True (), owner_outcome = Delivered, client_outcome = Delivered\<rparr>
           scenarioForm))
     = requests (submitForm referencePlatform
           \<lparr>commit_response = Response True (), owner_outcome = Delivered, client_outcome = Delivered\<rparr>
           scenarioForm)"
  by code_simp

end
